theory Spec2Isabelle
  imports Main
begin

section \<open>The lending engine of the book library (books.service.ts)\<close>

text \<open>
  The service works on two tables, Book and BorrowRecord, through an object-relational
  mapper. The tables are modelled as lists of rows in insertion order, the service methods
  as functions from the store to the store after the call paired with the outcome: the
  value returned, or the exception thrown. The numbers the lending methods handle
  (identifiers, copy counts) are integers.
\<close>

subsection \<open>Outcomes\<close>

text \<open>
  The four exception classes the service throws. The spec's InvalidState (borrow with no copy
  left) and InvalidInput (new quantity below the borrowed count) are both
  \<open>BadRequestException\<close> in the code; the spec's Internal is
  \<open>InternalServerErrorException\<close>.
\<close>

datatype error =
    NotFoundException
  | BadRequestException
  | ConflictException
  | InternalServerErrorException

text \<open>A point in time (\<open>new Date()\<close>, the clock of the database), in milliseconds.\<close>

type_synonym date = int

subsection \<open>Entities and request objects\<close>

text \<open>book.entity.ts; the field \<open>id\<close> is \<open>book_id\<close> here.\<close>

record Book =
  book_id :: int
  title :: string
  author :: string
  isbn :: string
  publicationYear :: int
  quantity :: int
  availableQuantity :: int
  coverImage :: "string option"

text \<open>
  borrow-record.entity.ts; the field \<open>id\<close> is \<open>record_id\<close> here, and the two
  many-to-one relations \<open>user\<close> and \<open>book\<close> hold the identifier of the row they refer to.
  The entity declares both dates, \<open>borrowedAt\<close> and the nullable \<open>returnedAt\<close>, with
  \<open>@CreateDateColumn\<close>.
\<close>

record BorrowRecord =
  record_id :: int
  borrowedAt :: date
  returnedAt :: "date option"
  user :: int
  book :: int

text \<open>
  Modelled from the spec: \<open>UpdateBookDto\<close>, whose declaration (update-book.dto.ts) is not
  among the sources. The spec's UpdateQuantity passes a new total and nothing else, so the
  request object has the one optional field \<open>quantity\<close>, \<open>None\<close> when it is absent.
\<close>

record UpdateBookDto =
  upd_quantity :: "int option"

subsection \<open>The store\<close>

text \<open>
  The two tables, and the next value of the sequence behind each generated primary key.
\<close>

record store =
  books :: "Book list"
  borrowRecords :: "BorrowRecord list"
  book_seq :: int
  record_seq :: int

text \<open>\<open>findOne(Book, {where: {id}})\<close>.\<close>

definition findOne_Book :: "store \<Rightarrow> int \<Rightarrow> Book option" where
  "findOne_Book s k = find (\<lambda>x. book_id x = k) (books s)"

text \<open>
  \<open>findOne(BorrowRecord, {where: {book: {id}, user: {id}, returnedAt: IsNull()}})\<close>:
  a loan of this book to this user that is still open. Where several rows match, the model
  takes the oldest.
\<close>

definition is_open_for :: "int \<Rightarrow> int \<Rightarrow> BorrowRecord \<Rightarrow> bool" where
  "is_open_for k u r \<longleftrightarrow> book r = k \<and> user r = u \<and> returnedAt r = None"

definition findOne_open :: "store \<Rightarrow> int \<Rightarrow> int \<Rightarrow> BorrowRecord option" where
  "findOne_open s k u = find (is_open_for k u) (borrowRecords s)"

text \<open>\<open>save\<close> of an entity that was loaded from its table: the row with its key is replaced.\<close>

definition save_Book :: "store \<Rightarrow> Book \<Rightarrow> store" where
  "save_Book s b = s\<lparr>books := map (\<lambda>x. if book_id x = book_id b then b else x) (books s)\<rparr>"

definition save_BorrowRecord :: "store \<Rightarrow> BorrowRecord \<Rightarrow> store" where
  "save_BorrowRecord s r =
     s\<lparr>borrowRecords := map (\<lambda>x. if record_id x = record_id r then r else x) (borrowRecords s)\<rparr>"

text \<open>
  \<open>save(create(BorrowRecord, {book: {id: bookId}, user: {id: userId}}))\<close>: the new row gets
  the next identifier. The service sets neither date, so each takes what its column's
  declaration gives a row on insertion: a create-date column holds the time of the
  insertion, \<open>returnedAt\<close> as much as \<open>borrowedAt\<close>.
\<close>

definition insert_BorrowRecord :: "store \<Rightarrow> date \<Rightarrow> int \<Rightarrow> int \<Rightarrow> store \<times> BorrowRecord" where
  "insert_BorrowRecord s now bookId userId =
     (let r = \<lparr>record_id = record_seq s, borrowedAt = now, returnedAt = Some now,
                user = userId, book = bookId\<rparr>
      in (s\<lparr>borrowRecords := borrowRecords s @ [r], record_seq := record_seq s + 1\<rparr>, r))"

text \<open>
  \<open>entityManager.transaction(callback)\<close>: the callback's writes are committed when it
  returns and rolled back when it throws.
\<close>

definition transaction ::
  "(store \<Rightarrow> store \<times> (error + 'a)) \<Rightarrow> store \<Rightarrow> store \<times> (error + 'a)" where
  "transaction callback s =
     (case callback s of
        (s', Inl e) \<Rightarrow> (s, Inl e)
      | (s', Inr v) \<Rightarrow> (s', Inr v))"

subsection \<open>BooksService\<close>

text \<open>\<open>findOne\<close> of the service.\<close>

definition findOne :: "store \<Rightarrow> int \<Rightarrow> error + Book" where
  "findOne s k = (case findOne_Book s k of None \<Rightarrow> Inl NotFoundException | Some b \<Rightarrow> Inr b)"

text \<open>
  \<open>update\<close>: the available count is recomputed from the borrowed count before
  \<open>Object.assign\<close> copies the request's fields onto the row. It runs outside any transaction.
\<close>

definition update :: "store \<Rightarrow> int \<Rightarrow> UpdateBookDto \<Rightarrow> store \<times> (error + Book)" where
  "update s k updateBookDto =
     (case findOne s k of
        Inl e \<Rightarrow> (s, Inl e)
      | Inr b \<Rightarrow>
          (case upd_quantity updateBookDto of
             None \<Rightarrow> (save_Book s b, Inr b)
           | Some q \<Rightarrow>
               (let borrowedCount = quantity b - availableQuantity b
                in if q < borrowedCount then (s, Inl BadRequestException)
                   else (let b' = b\<lparr>availableQuantity := q - borrowedCount\<rparr>;
                             b'' = b'\<lparr>quantity := q\<rparr>
                         in (save_Book s b'', Inr b'')))))"

text \<open>\<open>borrow\<close>: the callback, and the method that runs it in a transaction.\<close>

definition borrow_callback :: "int \<Rightarrow> int \<Rightarrow> date \<Rightarrow> store \<Rightarrow> store \<times> (error + BorrowRecord)" where
  "borrow_callback bookId userId now s =
     (case findOne_Book s bookId of
        None \<Rightarrow> (s, Inl NotFoundException)
      | Some b \<Rightarrow>
          if availableQuantity b \<le> 0 then (s, Inl BadRequestException)
          else
            (case findOne_open s bookId userId of
               Some existingRecord \<Rightarrow> (s, Inl ConflictException)
             | None \<Rightarrow>
                 (let s1 = save_Book s (b\<lparr>availableQuantity := availableQuantity b - 1\<rparr>);
                      (s2, borrowRecord) = insert_BorrowRecord s1 now bookId userId
                  in (s2, Inr borrowRecord))))"

definition borrow :: "store \<Rightarrow> int \<Rightarrow> int \<Rightarrow> date \<Rightarrow> store \<times> (error + BorrowRecord)" where
  "borrow s bookId userId now = transaction (borrow_callback bookId userId now) s"

text \<open>\<open>return\<close>, likewise.\<close>

definition return_callback :: "int \<Rightarrow> int \<Rightarrow> date \<Rightarrow> store \<Rightarrow> store \<times> (error + BorrowRecord)" where
  "return_callback bookId userId now s =
     (case findOne_Book s bookId of
        None \<Rightarrow> (s, Inl NotFoundException)
      | Some b \<Rightarrow>
          (case findOne_open s bookId userId of
             None \<Rightarrow> (s, Inl NotFoundException)
           | Some borrowRecord \<Rightarrow>
               if availableQuantity b \<ge> quantity b then (s, Inl InternalServerErrorException)
               else
                 (let s1 = save_Book s (b\<lparr>availableQuantity := availableQuantity b + 1\<rparr>);
                      r = borrowRecord\<lparr>returnedAt := Some now\<rparr>
                  in (save_BorrowRecord s1 r, Inr r))))"

definition return :: "store \<Rightarrow> int \<Rightarrow> int \<Rightarrow> date \<Rightarrow> store \<times> (error + BorrowRecord)" where
  "return s bookId userId now = transaction (return_callback bookId userId now) s"

subsection \<open>The invariant of the inventory\<close>

text \<open>
  The loans of a book that are still open; the core invariant of one Book row (the
  available count lies between zero and the total, and the copies that are not available
  are exactly the open loans of the book) and of the whole table; and what the tables
  themselves enforce: primary keys are unique and were drawn from their sequence, and a loan
  refers to a book that exists.
\<close>

definition open_loans :: "store \<Rightarrow> int \<Rightarrow> BorrowRecord list" where
  "open_loans s k = filter (\<lambda>r. book r = k \<and> returnedAt r = None) (borrowRecords s)"

definition title_invariant :: "store \<Rightarrow> Book \<Rightarrow> bool" where
  "title_invariant s b \<longleftrightarrow>
     0 \<le> availableQuantity b \<and> availableQuantity b \<le> quantity b
     \<and> quantity b - availableQuantity b = int (length (open_loans s (book_id b)))"

definition core_invariant :: "store \<Rightarrow> bool" where
  "core_invariant s \<longleftrightarrow> (\<forall>b\<in>set (books s). title_invariant s b)"

definition store_ok :: "store \<Rightarrow> bool" where
  "store_ok s \<longleftrightarrow>
     distinct (map book_id (books s))
     \<and> distinct (map record_id (borrowRecords s))
     \<and> (\<forall>b\<in>set (books s). book_id b < book_seq s)
     \<and> (\<forall>r\<in>set (borrowRecords s). record_id r < record_seq s)
     \<and> (\<forall>r\<in>set (borrowRecords s). book r \<in> set (map book_id (books s)))"

subsection \<open>Some stores\<close>

text \<open>
  A title with ten copies, two of them lent to users 1 and 2; the same title with all ten
  copies on the shelf and no loan yet; the same title sold out, its one copy lent to user 7;
  and a row whose counts say that every copy is on the shelf although a loan is open.
\<close>

definition gatsby :: Book where
  "gatsby = \<lparr>book_id = 1, title = ''The Great Gatsby'', author = ''F. Scott Fitzgerald'',
     isbn = ''978-0743273565'', publicationYear = 1925, quantity = 10, availableQuantity = 8,
     coverImage = None\<rparr>"

definition lent_store :: store where
  "lent_store =
     \<lparr>books = [gatsby],
      borrowRecords =
        [\<lparr>record_id = 1, borrowedAt = 100, returnedAt = None, user = 1, book = 1\<rparr>,
         \<lparr>record_id = 2, borrowedAt = 200, returnedAt = None, user = 2, book = 1\<rparr>],
      book_seq = 2, record_seq = 3\<rparr>"

definition sold_out_store :: store where
  "sold_out_store =
     \<lparr>books = [gatsby\<lparr>quantity := 1, availableQuantity := 0\<rparr>],
      borrowRecords = [\<lparr>record_id = 1, borrowedAt = 100, returnedAt = None, user = 7, book = 1\<rparr>],
      book_seq = 2, record_seq = 2\<rparr>"

definition surplus_store :: store where
  "surplus_store =
     \<lparr>books = [gatsby\<lparr>quantity := 5, availableQuantity := 5\<rparr>],
      borrowRecords = [\<lparr>record_id = 1, borrowedAt = 100, returnedAt = None, user = 1, book = 1\<rparr>],
      book_seq = 2, record_seq = 2\<rparr>"

definition shelf_store :: store where
  "shelf_store =
     \<lparr>books = [gatsby\<lparr>availableQuantity := 10\<rparr>],
      borrowRecords = [], book_seq = 2, record_seq = 1\<rparr>"

section \<open>The methods, unfolded\<close>

lemmas example_defs = gatsby_def lent_store_def shelf_store_def sold_out_store_def surplus_store_def
  findOne_Book_def findOne_open_def is_open_for_def

lemma borrow_unfold:
  "borrow s k u now =
     (case findOne_Book s k of
        None \<Rightarrow> (s, Inl NotFoundException)
      | Some b \<Rightarrow>
          if availableQuantity b \<le> 0 then (s, Inl BadRequestException)
          else if findOne_open s k u \<noteq> None then (s, Inl ConflictException)
          else (s\<lparr>books := map (\<lambda>x. if book_id x = book_id b then b\<lparr>availableQuantity := availableQuantity b - 1\<rparr> else x) (books s),
                  borrowRecords := borrowRecords s @
                    [\<lparr>record_id = record_seq s, borrowedAt = now, returnedAt = Some now, user = u, book = k\<rparr>],
                  record_seq := record_seq s + 1\<rparr>,
                Inr \<lparr>record_id = record_seq s, borrowedAt = now, returnedAt = Some now, user = u, book = k\<rparr>))"
  by (auto simp: borrow_def transaction_def borrow_callback_def save_Book_def
      insert_BorrowRecord_def Let_def split: option.splits)

lemma return_unfold:
  "return s k u now =
     (case findOne_Book s k of
        None \<Rightarrow> (s, Inl NotFoundException)
      | Some b \<Rightarrow>
          (case findOne_open s k u of
             None \<Rightarrow> (s, Inl NotFoundException)
           | Some r \<Rightarrow>
               if quantity b \<le> availableQuantity b then (s, Inl InternalServerErrorException)
               else (s\<lparr>books := map (\<lambda>x. if book_id x = book_id b then b\<lparr>availableQuantity := availableQuantity b + 1\<rparr> else x) (books s),
                      borrowRecords := map (\<lambda>x. if record_id x = record_id r then r\<lparr>returnedAt := Some now\<rparr> else x) (borrowRecords s)\<rparr>,
                     Inr (r\<lparr>returnedAt := Some now\<rparr>))))"
  by (auto simp: return_def transaction_def return_callback_def save_Book_def
      save_BorrowRecord_def Let_def split: option.splits)

lemma findOne_Book_SomeD:
  "findOne_Book s k = Some b \<Longrightarrow> b \<in> set (books s) \<and> book_id b = k"
  by (auto simp: findOne_Book_def find_Some_iff)

lemma findOne_open_SomeD:
  "findOne_open s k u = Some r \<Longrightarrow>
     r \<in> set (borrowRecords s) \<and> book r = k \<and> user r = u \<and> returnedAt r = None"
  by (auto simp: findOne_open_def find_Some_iff is_open_for_def)

lemma map_replace_distinct:
  assumes "distinct (map f xs)" "b \<in> set xs"
  shows "map (\<lambda>x. if f x = f b then g b else x) xs = map (\<lambda>x. if f x = f b then g x else x) xs"
proof (rule map_cong[OF refl])
  fix x assume "x \<in> set xs"
  with assms have "f x = f b \<Longrightarrow> x = b"
    by (meson distinct_map inj_onD)
  then show "(if f x = f b then g b else x) = (if f x = f b then g x else x)" by auto
qed

lemma update_unfold:
  "update s k dto =
     (case findOne_Book s k of
        None \<Rightarrow> (s, Inl NotFoundException)
      | Some b \<Rightarrow>
          (case upd_quantity dto of
             None \<Rightarrow> (s\<lparr>books := map (\<lambda>x. if book_id x = book_id b then b else x) (books s)\<rparr>, Inr b)
           | Some q \<Rightarrow>
               if q < quantity b - availableQuantity b then (s, Inl BadRequestException)
               else (s\<lparr>books := map (\<lambda>x. if book_id x = book_id b
                         then b\<lparr>availableQuantity := q - (quantity b - availableQuantity b), quantity := q\<rparr>
                         else x) (books s)\<rparr>,
                     Inr (b\<lparr>availableQuantity := q - (quantity b - availableQuantity b), quantity := q\<rparr>))))"
  by (auto simp: update_def findOne_def save_Book_def Let_def split: option.splits)

lemma find_map_row:
  assumes "find (\<lambda>x. book_id x = k) bs = Some b" "\<And>x. book_id (g x) = book_id x"
  shows "find (\<lambda>x. book_id x = k) (map (\<lambda>x. if book_id x = k then g x else x) bs) = Some (g b)"
  using assms(1) by (induction bs) (auto simp: assms(2) split: if_splits)

lemma find_snoc:
  "find P (xs @ [y]) = (case find P xs of Some x \<Rightarrow> Some x | None \<Rightarrow> if P y then Some y else None)"
  by (induction xs) auto

text \<open>What a committed borrow and a committed return do to the store.\<close>

lemma borrow_commit:
  assumes "findOne_Book s bookId = Some b"
    and "0 < availableQuantity b"
    and "findOne_open s bookId userId = None"
    and "distinct (map book_id (books s))"
  shows "borrow s bookId userId now =
     (s\<lparr>books := map (\<lambda>x. if book_id x = bookId
                            then x\<lparr>availableQuantity := availableQuantity x - 1\<rparr> else x) (books s),
        borrowRecords := borrowRecords s @
          [\<lparr>record_id = record_seq s, borrowedAt = now, returnedAt = Some now,
            user = userId, book = bookId\<rparr>],
        record_seq := record_seq s + 1\<rparr>,
      Inr \<lparr>record_id = record_seq s, borrowedAt = now, returnedAt = Some now,
           user = userId, book = bookId\<rparr>)"
proof -
  from assms(1) have b: "b \<in> set (books s)" "book_id b = bookId"
    by (simp_all add: findOne_Book_SomeD)
  have "map (\<lambda>x. if book_id x = book_id b then b\<lparr>availableQuantity := availableQuantity b - 1\<rparr> else x) (books s)
      = map (\<lambda>x. if book_id x = book_id b then x\<lparr>availableQuantity := availableQuantity x - 1\<rparr> else x) (books s)"
    using map_replace_distinct [OF assms(4) b(1), of "\<lambda>x. x\<lparr>availableQuantity := availableQuantity x - 1\<rparr>"] .
  with assms b show ?thesis
    by (simp add: borrow_unfold Let_def)
qed

lemma return_commit:
  assumes "findOne_Book s bookId = Some b"
    and "findOne_open s bookId userId = Some r"
    and "availableQuantity b < quantity b"
    and "distinct (map book_id (books s))"
    and "distinct (map record_id (borrowRecords s))"
  shows "return s bookId userId now =
     (s\<lparr>books := map (\<lambda>x. if book_id x = bookId
                            then x\<lparr>availableQuantity := availableQuantity x + 1\<rparr> else x) (books s),
        borrowRecords := map (\<lambda>x. if x = r then x\<lparr>returnedAt := Some now\<rparr> else x)
                            (borrowRecords s)\<rparr>,
      Inr (r\<lparr>returnedAt := Some now\<rparr>))"
proof -
  from assms(1) have b: "b \<in> set (books s)" "book_id b = bookId"
    by (simp_all add: findOne_Book_SomeD)
  from assms(2) have r: "r \<in> set (borrowRecords s)"
    by (simp add: findOne_open_SomeD)
  have bs: "map (\<lambda>x. if book_id x = book_id b then b\<lparr>availableQuantity := availableQuantity b + 1\<rparr> else x) (books s)
      = map (\<lambda>x. if book_id x = book_id b then x\<lparr>availableQuantity := availableQuantity x + 1\<rparr> else x) (books s)"
    using map_replace_distinct [OF assms(4) b(1), of "\<lambda>x. x\<lparr>availableQuantity := availableQuantity x + 1\<rparr>"] .
  have rs: "map (\<lambda>x. if record_id x = record_id r then r\<lparr>returnedAt := Some now\<rparr> else x) (borrowRecords s)
      = map (\<lambda>x. if x = r then x\<lparr>returnedAt := Some now\<rparr> else x) (borrowRecords s)"
  proof (rule map_cong [OF refl])
    fix x assume "x \<in> set (borrowRecords s)"
    with assms(5) r have "record_id x = record_id r \<longleftrightarrow> x = r"
      by (meson distinct_map inj_onD)
    then show "(if record_id x = record_id r then r\<lparr>returnedAt := Some now\<rparr> else x)
        = (if x = r then x\<lparr>returnedAt := Some now\<rparr> else x)" by auto
  qed
  from assms(1,2,3) b bs rs show ?thesis
    by (simp add: return_unfold)
qed

section \<open>Preservation of the invariant\<close>

text \<open>
  \<open>return\<close> and \<open>update\<close> take a store with well-formed tables and the core invariant to
  such a store again, whether they commit or throw.
\<close>

lemma distinct_same_key:
  "distinct (map f xs) \<Longrightarrow> x \<in> set xs \<Longrightarrow> y \<in> set xs \<Longrightarrow> f x = f y \<Longrightarrow> x = y"
  by (meson distinct_map inj_onD)

lemma close_count:
  assumes "distinct rs" "r \<in> set rs" "returnedAt r = None"
  shows "length (filter (\<lambda>x. book x = k \<and> returnedAt x = None)
           (map (\<lambda>x. if x = r then x\<lparr>returnedAt := Some now\<rparr> else x) rs))
         + (if book r = k then 1 else 0)
       = length (filter (\<lambda>x. book x = k \<and> returnedAt x = None) rs)"
  using assms
proof (induction rs)
  case Nil
  then show ?case by simp
next
  case (Cons a rs)
  show ?case
  proof (cases "a = r")
    case True
    with Cons.prems have "r \<notin> set rs"
      by simp
    then have "map (\<lambda>x. if x = r then x\<lparr>returnedAt := Some now\<rparr> else x) rs = rs"
      by (intro map_idI) auto
    with True Cons.prems show ?thesis by simp
  next
    case False
    with Cons.prems have "distinct rs" "r \<in> set rs"
      by auto
    with Cons.IH [OF this Cons.prems(3)] False show ?thesis by (auto split: if_splits)
  qed
qed

lemma return_preserves:
  assumes "store_ok s" "core_invariant s"
  shows "store_ok (fst (return s k u now)) \<and> core_invariant (fst (return s k u now))"
proof (cases "isl (snd (return s k u now))")
  case True
  then have "fst (return s k u now) = s"
    by (auto simp: return_unfold Let_def split: option.splits if_splits)
  with assms show ?thesis by simp
next
  case False
  then obtain b r where b: "findOne_Book s k = Some b" "findOne_open s k u = Some r"
      "availableQuantity b < quantity b"
    by (auto simp: return_unfold Let_def split: option.splits if_splits)
  from b(1) have bin: "b \<in> set (books s)" "book_id b = k"
    by (simp_all add: findOne_Book_SomeD)
  from b(2) have rin: "r \<in> set (borrowRecords s)" "book r = k" "returnedAt r = None"
    by (simp_all add: findOne_open_SomeD)
  from assms(1) have d: "distinct (map book_id (books s))" "distinct (map record_id (borrowRecords s))"
    by (simp_all add: store_ok_def)
  define s' where "s' = fst (return s k u now)"
  have s': "books s' = map (\<lambda>x. if book_id x = k then x\<lparr>availableQuantity := availableQuantity x + 1\<rparr> else x) (books s)"
    "borrowRecords s' = map (\<lambda>x. if x = r then x\<lparr>returnedAt := Some now\<rparr> else x) (borrowRecords s)"
    "record_seq s' = record_seq s" "book_seq s' = book_seq s"
    unfolding s'_def by (simp_all add: return_commit [OF b d])
  have ids: "map book_id (books s') = map book_id (books s)"
    unfolding s'(1) by (induction "books s") auto
  have rids: "map record_id (borrowRecords s') = map record_id (borrowRecords s)"
    unfolding s'(2) by (induction "borrowRecords s") auto
  have fk: "\<forall>x\<in>set (borrowRecords s'). book x \<in> set (map book_id (books s))"
    using assms(1) rin unfolding store_ok_def s'(2) by auto
  have rlt: "\<forall>x\<in>set (borrowRecords s'). record_id x < record_seq s"
    using assms(1) rin unfolding store_ok_def s'(2) by auto
  have blt: "\<forall>x\<in>set (books s'). book_id x < book_seq s"
    using assms(1) unfolding store_ok_def s'(1) by auto
  have ok: "store_ok s'"
    using assms(1) fk rlt blt unfolding store_ok_def ids rids s'(3,4) by simp
  have ol: "\<And>j. int (length (open_loans s' j)) + (if j = k then 1 else 0) = int (length (open_loans s j))"
  proof -
    fix j
    from d(2) have "distinct (borrowRecords s)"
      by (simp add: distinct_map)
    from close_count [OF this rin(1) rin(3), of j now] rin(2)
    have "length (open_loans s' j) + (if j = k then 1 else 0) = length (open_loans s j)"
      unfolding open_loans_def s'(2) by auto
    then have "int (length (open_loans s' j) + (if j = k then 1 else 0)) = int (length (open_loans s j))"
      by simp
    then show "int (length (open_loans s' j)) + (if j = k then 1 else 0) = int (length (open_loans s j))"
      by (simp split: if_splits)
  qed
  have "core_invariant s'"
    unfolding core_invariant_def title_invariant_def
  proof
    fix x assume "x \<in> set (books s')"
    then obtain y where y: "y \<in> set (books s)"
      "x = (if book_id y = k then y\<lparr>availableQuantity := availableQuantity y + 1\<rparr> else y)"
      unfolding s'(1) by auto
    from assms(2) y(1) have inv: "0 \<le> availableQuantity y" "availableQuantity y \<le> quantity y"
      "quantity y - availableQuantity y = int (length (open_loans s (book_id y)))"
      by (simp_all add: core_invariant_def title_invariant_def)
    show "0 \<le> availableQuantity x \<and> availableQuantity x \<le> quantity x
        \<and> quantity x - availableQuantity x = int (length (open_loans s' (book_id x)))"
    proof (cases "book_id y = k")
      case True
      with y(1) bin d have "y = b" by (auto dest: distinct_same_key)
      with True y(2) inv b(3) ol [of k] show ?thesis by simp
    next
      case False
      with y(2) inv ol [of "book_id y"] show ?thesis by simp
    qed
  qed
  with ok show ?thesis by (simp add: s'_def)
qed

lemma update_preserves:
  assumes "store_ok s" "core_invariant s"
  shows "store_ok (fst (update s k dto)) \<and> core_invariant (fst (update s k dto))"
proof (cases "findOne_Book s k")
  case None
  with assms show ?thesis by (simp add: update_unfold)
next
  case (Some b)
  then have bin: "b \<in> set (books s)" "book_id b = k"
    by (simp_all add: findOne_Book_SomeD)
  from assms(1) have d: "distinct (map book_id (books s))"
    by (simp add: store_ok_def)
  from assms(2) bin(1) have inv: "0 \<le> availableQuantity b" "availableQuantity b \<le> quantity b"
      "quantity b - availableQuantity b = int (length (open_loans s (book_id b)))"
    by (simp_all add: core_invariant_def title_invariant_def)
  show ?thesis
  proof (cases "upd_quantity dto")
    case None
    have "map (\<lambda>x. if book_id x = book_id b then b else x) (books s) = books s"
      using d bin(1) by (intro map_idI) (auto dest: distinct_same_key)
    with Some None assms show ?thesis by (simp add: update_unfold)
  next
    case (Some q)
    show ?thesis
    proof (cases "q < quantity b - availableQuantity b")
      case True
      with \<open>findOne_Book s k = Some b\<close> Some assms show ?thesis by (simp add: update_unfold)
    next
      case False
      define b' where "b' = b\<lparr>availableQuantity := q - (quantity b - availableQuantity b), quantity := q\<rparr>"
      define s' where "s' = fst (update s k dto)"
      have s': "books s' = map (\<lambda>x. if book_id x = k then b' else x) (books s)"
        "borrowRecords s' = borrowRecords s" "record_seq s' = record_seq s" "book_seq s' = book_seq s"
        unfolding s'_def b'_def using \<open>findOne_Book s k = Some b\<close> Some False bin
        by (simp_all add: update_unfold)
      have idb: "book_id b' = k" by (simp add: b'_def bin)
      have ids: "map book_id (books s') = map book_id (books s)"
        unfolding s'(1) using idb by (induction "books s") auto
      have blt: "\<forall>x\<in>set (books s'). book_id x < book_seq s"
        using assms(1) bin idb unfolding store_ok_def s'(1) by auto
      have ok: "store_ok s'"
        using assms(1) blt unfolding store_ok_def ids s'(2,3,4) by simp
      have ol: "\<And>j. open_loans s' j = open_loans s j"
        by (simp add: open_loans_def s'(2))
      have "core_invariant s'"
        unfolding core_invariant_def title_invariant_def
      proof
        fix x assume "x \<in> set (books s')"
        then obtain y where y: "y \<in> set (books s)" "x = (if book_id y = k then b' else y)"
          unfolding s'(1) by auto
        show "0 \<le> availableQuantity x \<and> availableQuantity x \<le> quantity x
            \<and> quantity x - availableQuantity x = int (length (open_loans s' (book_id x)))"
        proof (cases "book_id y = k")
          case True
          with y(2) have "x = b'" by simp
          with inv False bin show ?thesis by (simp add: ol b'_def)
        next
          case False
          with y assms(2) show ?thesis by (simp add: ol core_invariant_def title_invariant_def)
        qed
      qed
      with ok show ?thesis by (simp add: s'_def)
    qed
  qed
qed

section \<open>What a committed borrow leaves behind\<close>

text \<open>
  The loan a committed \<open>borrow\<close> inserts carries the time of its insertion as \<open>returnedAt\<close>:
  it is appended closed. The open loans of every book are what they were, the user still
  has no open loan of the book, a \<open>return\<close> finds none, and the row of the book, one copy
  down, no longer agrees with its open loans.
\<close>

lemma borrow_committed:
  assumes "borrow s k u now = (s1, Inr loan)"
  obtains b where "findOne_Book s k = Some b" and "0 < availableQuantity b"
    and "findOne_open s k u = None"
    and "loan = \<lparr>record_id = record_seq s, borrowedAt = now, returnedAt = Some now,
                    user = u, book = k\<rparr>"
    and "s1 = s\<lparr>books := map (\<lambda>x. if book_id x = k
                               then b\<lparr>availableQuantity := availableQuantity b - 1\<rparr> else x) (books s),
                   borrowRecords := borrowRecords s @ [loan],
                   record_seq := record_seq s + 1\<rparr>"
proof (cases "findOne_Book s k")
  case None
  with assms show ?thesis by (simp add: borrow_unfold)
next
  case (Some b)
  then have "book_id b = k" by (simp add: findOne_Book_SomeD)
  with Some assms that [of b] show ?thesis
    by (auto simp: borrow_unfold split: if_splits)
qed

lemma borrow_loan_closed:
  assumes "borrow s k u now = (s1, Inr loan)"
  shows "returnedAt loan = Some now" and "borrowRecords s1 = borrowRecords s @ [loan]"
    and "open_loans s1 j = open_loans s j" and "findOne_open s1 k u = None"
proof -
  from assms obtain b where none: "findOne_open s k u = None"
    and loan: "loan = \<lparr>record_id = record_seq s, borrowedAt = now, returnedAt = Some now,
                         user = u, book = k\<rparr>"
    and s1: "s1 = s\<lparr>books := map (\<lambda>x. if book_id x = k
                               then b\<lparr>availableQuantity := availableQuantity b - 1\<rparr> else x) (books s),
                   borrowRecords := borrowRecords s @ [loan],
                   record_seq := record_seq s + 1\<rparr>"
    by (rule borrow_committed)
  show "returnedAt loan = Some now" by (simp add: loan)
  show "borrowRecords s1 = borrowRecords s @ [loan]" by (simp add: s1)
  show "open_loans s1 j = open_loans s j" by (simp add: open_loans_def s1 loan)
  from none show "findOne_open s1 k u = None"
    by (simp add: findOne_open_def s1 find_snoc is_open_for_def loan)
qed

lemma return_after_borrow:
  assumes "borrow s k u t1 = (s1, Inr loan)"
  shows "return s1 k u t2 = (s1, Inl NotFoundException)"
  using borrow_loan_closed(4) [OF assms]
  by (simp add: return_unfold split: option.splits)

lemma borrow_breaks_core_invariant:
  assumes "core_invariant s" and "borrow s k u now = (s1, Inr loan)"
  shows "\<not> core_invariant s1"
proof
  assume inv1: "core_invariant s1"
  from assms(2) obtain b where b: "findOne_Book s k = Some b"
    and s1: "s1 = s\<lparr>books := map (\<lambda>x. if book_id x = k
                               then b\<lparr>availableQuantity := availableQuantity b - 1\<rparr> else x) (books s),
                   borrowRecords := borrowRecords s @ [loan],
                   record_seq := record_seq s + 1\<rparr>"
    by (rule borrow_committed)
  from b have bin: "b \<in> set (books s)" "book_id b = k"
    by (simp_all add: findOne_Book_SomeD)
  from bin have "b\<lparr>availableQuantity := availableQuantity b - 1\<rparr> \<in> set (books s1)"
    by (force simp: s1)
  with inv1 have "title_invariant s1 (b\<lparr>availableQuantity := availableQuantity b - 1\<rparr>)"
    by (simp add: core_invariant_def)
  then have after: "quantity b - (availableQuantity b - 1) = int (length (open_loans s k))"
    by (simp add: title_invariant_def bin borrow_loan_closed(3) [OF assms(2)])
  from assms(1) bin have "quantity b - availableQuantity b = int (length (open_loans s k))"
    by (auto simp: core_invariant_def title_invariant_def)
  with after show False by simp
qed

lemma borrow_store_ok:
  assumes "store_ok s"
  shows "store_ok (fst (borrow s k u now))"
proof (cases "snd (borrow s k u now)")
  case (Inl e)
  then have "fst (borrow s k u now) = s"
    by (auto simp: borrow_unfold split: option.splits if_splits)
  with assms show ?thesis by simp
next
  case (Inr loan)
  then have "borrow s k u now = (fst (borrow s k u now), Inr loan)"
    by (metis prod.collapse)
  then obtain b where b: "findOne_Book s k = Some b"
    and loan: "loan = \<lparr>record_id = record_seq s, borrowedAt = now, returnedAt = Some now,
                         user = u, book = k\<rparr>"
    and s1: "fst (borrow s k u now) = s\<lparr>books := map (\<lambda>x. if book_id x = k
                               then b\<lparr>availableQuantity := availableQuantity b - 1\<rparr> else x) (books s),
                   borrowRecords := borrowRecords s @ [loan],
                   record_seq := record_seq s + 1\<rparr>"
    by (rule borrow_committed)
  from b have bin: "b \<in> set (books s)" "book_id b = k"
    by (simp_all add: findOne_Book_SomeD)
  have ids: "map book_id (map (\<lambda>x. if book_id x = k
      then b\<lparr>availableQuantity := availableQuantity b - 1\<rparr> else x) (books s)) = map book_id (books s)"
    using bin(2) by (induction "books s") auto
  have blt: "\<forall>x\<in>set (map (\<lambda>x. if book_id x = k
      then b\<lparr>availableQuantity := availableQuantity b - 1\<rparr> else x) (books s)). book_id x < book_seq s"
    using assms bin unfolding store_ok_def by auto
  from assms bin blt show ?thesis
    unfolding s1 store_ok_def by (auto simp: ids loan simp del: map_map)
qed

section \<open>One copy, two borrowers, one after the other\<close>

text \<open>
  The service leaves the interleaving of two calls on one book to the row lock of the
  database. When the two calls run one after the other, whichever comes first takes the
  last copy and the other is refused.
\<close>

lemma last_copy_serial:
  assumes "findOne_Book s k = Some b"
    and "quantity b = 1" and "availableQuantity b = 1"
    and "findOne_open s k u1 = None"
    and "distinct (map book_id (books s))"
  shows "\<exists>s1 loan. borrow s k u1 t1 = (s1, Inr loan)
     \<and> borrow s1 k u2 t2 = (s1, Inl BadRequestException)
     \<and> map_option availableQuantity (findOne_Book s1 k) = Some 0"
proof -
  define dec where "dec = (\<lambda>x::Book. x\<lparr>availableQuantity := availableQuantity x - 1\<rparr>)"
  define s1 where "s1 = s\<lparr>books := map (\<lambda>x. if book_id x = k then dec x else x) (books s),
      borrowRecords := borrowRecords s @
        [\<lparr>record_id = record_seq s, borrowedAt = t1, returnedAt = Some t1, user = u1, book = k\<rparr>],
      record_seq := record_seq s + 1\<rparr>"
  from assms(3) have "0 < availableQuantity b" by simp
  from borrow_commit [OF assms(1) this assms(4,5), of t1]
  have first: "borrow s k u1 t1 = (s1, Inr \<lparr>record_id = record_seq s, borrowedAt = t1,
      returnedAt = Some t1, user = u1, book = k\<rparr>)"
    by (simp add: s1_def dec_def)
  have found: "findOne_Book s1 k = Some (dec b)"
    using find_map_row [of k "books s" b dec] assms(1)
    by (simp add: findOne_Book_def s1_def dec_def)
  have zero: "availableQuantity (dec b) = 0"
    using assms(3) by (simp add: dec_def)
  from found zero have second: "borrow s1 k u2 t2 = (s1, Inl BadRequestException)"
    by (simp add: borrow_unfold)
  from first second found zero show ?thesis by simp
qed

section \<open>The claims\<close>

text \<open>
  C1. The claim has every committed \<open>borrow\<close> preserve the core invariant; the code does
  not. On a store with one title, ten copies, all of them available, and no loan, the
  invariant holds; \<open>borrow\<close> commits, leaves nine copies available and no open loan of the
  title, and the invariant of the title fails: one copy is gone and no open loan accounts
  for it.
\<close>

theorem borrow_breaks_title_invariant:
  "books shelf_store = [gatsby\<lparr>availableQuantity := 10\<rparr>]
   \<and> title_invariant shelf_store (gatsby\<lparr>availableQuantity := 10\<rparr>)
   \<and> books (fst (borrow shelf_store 1 3 500)) = [gatsby\<lparr>availableQuantity := 9\<rparr>]
   \<and> open_loans (fst (borrow shelf_store 1 3 500)) 1 = []
   \<and> \<not> title_invariant (fst (borrow shelf_store 1 3 500)) (gatsby\<lparr>availableQuantity := 9\<rparr>)"
  by (simp add: borrow_unfold title_invariant_def open_loans_def example_defs)

text \<open>
  C2. The claim has a committed \<open>borrow\<close> insert an open loan; the code inserts a closed
  one. On the same store the three preconditions hold and \<open>borrow\<close> commits, with one copy
  less available and one loan appended and returned, but the loan's \<open>returnedAt\<close> is the
  time of the insertion, not null, and the user has no open loan of the book afterwards.
\<close>

theorem borrow_inserts_closed_loan:
  "findOne_Book shelf_store 1 = Some (gatsby\<lparr>availableQuantity := 10\<rparr>)
   \<and> 0 < availableQuantity (gatsby\<lparr>availableQuantity := 10\<rparr>)
   \<and> findOne_open shelf_store 1 3 = None
   \<and> borrow shelf_store 1 3 500
       = (shelf_store\<lparr>books := [gatsby\<lparr>availableQuantity := 9\<rparr>],
            borrowRecords :=
              [\<lparr>record_id = 1, borrowedAt = 500, returnedAt = Some 500, user = 3, book = 1\<rparr>],
            record_seq := 2\<rparr>,
          Inr \<lparr>record_id = 1, borrowedAt = 500, returnedAt = Some 500, user = 3, book = 1\<rparr>)
   \<and> findOne_open (fst (borrow shelf_store 1 3 500)) 1 3 = None"
  by (simp add: borrow_unfold example_defs)

text \<open>
  C3. \<open>borrow\<close> throws exactly when a precondition fails, the first that fails deciding the
  exception: \<open>NotFoundException\<close> without the book, \<open>BadRequestException\<close> (the spec's
  InvalidState) when no copy is available, \<open>ConflictException\<close> when a copy is available and
  the user already has an open loan of the book. When it throws, the store is unchanged.
\<close>

theorem borrow_failures:
  "(isl (snd (borrow s bookId userId now)) \<longleftrightarrow>
      findOne_Book s bookId = None
      \<or> (\<exists>b. findOne_Book s bookId = Some b \<and> \<not> 0 < availableQuantity b)
      \<or> findOne_open s bookId userId \<noteq> None)
   \<and> (findOne_Book s bookId = None \<longrightarrow>
        borrow s bookId userId now = (s, Inl NotFoundException))
   \<and> (\<forall>b. findOne_Book s bookId = Some b \<and> \<not> 0 < availableQuantity b \<longrightarrow>
        borrow s bookId userId now = (s, Inl BadRequestException))
   \<and> (\<forall>b. findOne_Book s bookId = Some b \<and> 0 < availableQuantity b
          \<and> findOne_open s bookId userId \<noteq> None \<longrightarrow>
        borrow s bookId userId now = (s, Inl ConflictException))
   \<and> (isl (snd (borrow s bookId userId now)) \<longrightarrow> fst (borrow s bookId userId now) = s)"
  by (auto simp: borrow_unfold Let_def split: option.splits)

theorem borrow_failures_witness:
  "borrow lent_store 9 3 500 = (lent_store, Inl NotFoundException)
   \<and> borrow sold_out_store 1 3 500 = (sold_out_store, Inl BadRequestException)
   \<and> borrow lent_store 1 2 500 = (lent_store, Inl ConflictException)
   \<and> \<not> isl (snd (borrow lent_store 1 3 500))"
proof -
  have "findOne_Book lent_store 9 = None"
    by (simp add: example_defs)
  then have a: "borrow lent_store 9 3 500 = (lent_store, Inl NotFoundException)"
    using borrow_failures [of lent_store 9 3 500] by simp
  have "findOne_Book sold_out_store 1 = Some (gatsby\<lparr>quantity := 1, availableQuantity := 0\<rparr>)
      \<and> \<not> 0 < availableQuantity (gatsby\<lparr>quantity := 1, availableQuantity := 0\<rparr>)"
    by (simp add: example_defs)
  then have b: "borrow sold_out_store 1 3 500 = (sold_out_store, Inl BadRequestException)"
    using borrow_failures [of sold_out_store 1 3 500] by blast
  have "findOne_Book lent_store 1 = Some gatsby \<and> 0 < availableQuantity gatsby
      \<and> findOne_open lent_store 1 2 \<noteq> None"
    by (simp add: example_defs)
  then have c: "borrow lent_store 1 2 500 = (lent_store, Inl ConflictException)"
    using borrow_failures [of lent_store 1 2 500] by blast
  have "findOne_Book lent_store 1 = Some gatsby \<and> 0 < availableQuantity gatsby
      \<and> findOne_open lent_store 1 3 = None"
    by (simp add: example_defs)
  then have d: "\<not> isl (snd (borrow lent_store 1 3 500))"
    using borrow_failures [of lent_store 1 3 500] by auto
  from a b c d show ?thesis by blast
qed

text \<open>
  C4. When the book exists, the user has an open loan of it and fewer copies are available
  than the book has, \<open>return\<close> commits: the row of the book has one copy more available and
  no other row of the Book table changes, the loan that was found gets the current time as
  \<open>returnedAt\<close> and is returned, and no other loan changes.
\<close>

theorem return_success:
  assumes "findOne_Book s bookId = Some b"
    and "findOne_open s bookId userId = Some r"
    and "availableQuantity b < quantity b"
    and "distinct (map book_id (books s))"
    and "distinct (map record_id (borrowRecords s))"
  shows "return s bookId userId now =
     (s\<lparr>books := map (\<lambda>x. if book_id x = bookId
                            then x\<lparr>availableQuantity := availableQuantity x + 1\<rparr> else x) (books s),
        borrowRecords := map (\<lambda>x. if x = r then x\<lparr>returnedAt := Some now\<rparr> else x)
                            (borrowRecords s)\<rparr>,
      Inr (r\<lparr>returnedAt := Some now\<rparr>))"
  using assms by (rule return_commit)

theorem return_success_witness:
  "return lent_store 1 1 500 =
     (lent_store\<lparr>books := [gatsby\<lparr>availableQuantity := 9\<rparr>],
        borrowRecords :=
          [\<lparr>record_id = 1, borrowedAt = 100, returnedAt = Some 500, user = 1, book = 1\<rparr>,
           \<lparr>record_id = 2, borrowedAt = 200, returnedAt = None, user = 2, book = 1\<rparr>]\<rparr>,
      Inr \<lparr>record_id = 1, borrowedAt = 100, returnedAt = Some 500, user = 1, book = 1\<rparr>)"
proof -
  have h1: "findOne_Book lent_store 1 = Some gatsby" by (simp add: example_defs)
  have h2: "findOne_open lent_store 1 1
      = Some \<lparr>record_id = 1, borrowedAt = 100, returnedAt = None, user = 1, book = 1\<rparr>"
    by (simp add: example_defs)
  have h3: "availableQuantity gatsby < quantity gatsby" by (simp add: example_defs)
  have h4: "distinct (map book_id (books lent_store))" by (simp add: example_defs)
  have h5: "distinct (map record_id (borrowRecords lent_store))" by (simp add: example_defs)
  show ?thesis
    using return_success [OF h1 h2 h3 h4 h5, of 500] by (simp add: example_defs)
qed

text \<open>
  C5. When the book exists and the user has an open loan of it, but the available count is
  not below the total, \<open>return\<close> throws \<open>InternalServerErrorException\<close> and the store is
  unchanged: the count is neither incremented nor clamped, and the loan stays open.
\<close>

theorem return_surplus_is_internal_error:
  assumes "findOne_Book s bookId = Some b"
    and "findOne_open s bookId userId = Some r"
    and "availableQuantity b \<ge> quantity b"
  shows "return s bookId userId now = (s, Inl InternalServerErrorException)"
  using assms by (simp add: return_unfold)

theorem return_surplus_is_internal_error_witness:
  "return surplus_store 1 1 500 = (surplus_store, Inl InternalServerErrorException)
   \<and> findOne_Book surplus_store 1 = Some (gatsby\<lparr>quantity := 5, availableQuantity := 5\<rparr>)
   \<and> findOne_open surplus_store 1 1
       = Some \<lparr>record_id = 1, borrowedAt = 100, returnedAt = None, user = 1, book = 1\<rparr>"
proof -
  have h1: "findOne_Book surplus_store 1 = Some (gatsby\<lparr>quantity := 5, availableQuantity := 5\<rparr>)"
    by (simp add: example_defs)
  have h2: "findOne_open surplus_store 1 1
      = Some \<lparr>record_id = 1, borrowedAt = 100, returnedAt = None, user = 1, book = 1\<rparr>"
    by (simp add: example_defs)
  have h3: "availableQuantity (gatsby\<lparr>quantity := 5, availableQuantity := 5\<rparr>)
      \<ge> quantity (gatsby\<lparr>quantity := 5, availableQuantity := 5\<rparr>)"
    by (simp add: example_defs)
  show ?thesis
    using return_surplus_is_internal_error [OF h1 h2 h3, of 500] h1 h2 by simp
qed

text \<open>
  C6, as the spec states it, fails on its example: for a book with ten copies of which eight
  are available, two are lent, and a new total of 3 is not below 2. \<open>update\<close> accepts it
  and leaves three copies, one of them available.
\<close>

theorem update_quantity_counterexample:
  "findOne_Book lent_store 1 = Some gatsby \<and> quantity gatsby = 10 \<and> availableQuantity gatsby = 8
   \<and> update lent_store 1 \<lparr>upd_quantity = Some 3\<rparr>
       = (lent_store\<lparr>books := [gatsby\<lparr>availableQuantity := 1, quantity := 3\<rparr>]\<rparr>,
          Inr (gatsby\<lparr>availableQuantity := 1, quantity := 3\<rparr>))
   \<and> snd (update lent_store 1 \<lparr>upd_quantity = Some 3\<rparr>) \<noteq> Inl BadRequestException"
  by (simp add: update_unfold example_defs)

text \<open>
  C6, amended. \<open>update\<close> with a new total computes the borrowed count
  \<open>quantity - availableQuantity\<close> from the stored row; a new total below it is refused with
  \<open>BadRequestException\<close> (the spec's InvalidInput) and the store is unchanged; otherwise the
  row gets the new total as \<open>quantity\<close> and the new total less the borrowed count as
  \<open>availableQuantity\<close>, and no other row changes. For a book with ten copies of which eight
  are available, a new total of 1 is refused, 3 leaves one copy available and 12 leaves ten.
\<close>

theorem update_quantity_reconciles:
  assumes "findOne_Book s k = Some b" and "distinct (map book_id (books s))"
  shows "update s k \<lparr>upd_quantity = Some q\<rparr> =
      (if q < quantity b - availableQuantity b then (s, Inl BadRequestException)
       else (s\<lparr>books := map (\<lambda>x. if book_id x = k
                  then x\<lparr>availableQuantity := q - (quantity x - availableQuantity x), quantity := q\<rparr>
                  else x) (books s)\<rparr>,
             Inr (b\<lparr>availableQuantity := q - (quantity b - availableQuantity b), quantity := q\<rparr>)))
    \<and> (quantity b = 10 \<and> availableQuantity b = 8 \<longrightarrow>
          update s k \<lparr>upd_quantity = Some 1\<rparr> = (s, Inl BadRequestException)
          \<and> snd (update s k \<lparr>upd_quantity = Some 3\<rparr>)
              = Inr (b\<lparr>availableQuantity := 1, quantity := 3\<rparr>)
          \<and> snd (update s k \<lparr>upd_quantity = Some 12\<rparr>)
              = Inr (b\<lparr>availableQuantity := 10, quantity := 12\<rparr>))"
proof -
  from assms(1) have b: "b \<in> set (books s)" "book_id b = k"
    by (simp_all add: findOne_Book_SomeD)
  have "map (\<lambda>x. if book_id x = book_id b
               then b\<lparr>availableQuantity := q - (quantity b - availableQuantity b), quantity := q\<rparr>
               else x) (books s)
      = map (\<lambda>x. if book_id x = book_id b
               then x\<lparr>availableQuantity := q - (quantity x - availableQuantity x), quantity := q\<rparr>
               else x) (books s)"
    using map_replace_distinct [OF assms(2) b(1),
        of "\<lambda>x. x\<lparr>availableQuantity := q - (quantity x - availableQuantity x), quantity := q\<rparr>"] .
  with assms(1) b show ?thesis
    by (simp add: update_unfold)
qed

theorem update_quantity_reconciles_witness:
  "update lent_store 1 \<lparr>upd_quantity = Some 12\<rparr>
     = (lent_store\<lparr>books := [gatsby\<lparr>availableQuantity := 10, quantity := 12\<rparr>]\<rparr>,
        Inr (gatsby\<lparr>availableQuantity := 10, quantity := 12\<rparr>))
   \<and> update lent_store 1 \<lparr>upd_quantity = Some 1\<rparr> = (lent_store, Inl BadRequestException)"
proof -
  have h1: "findOne_Book lent_store 1 = Some gatsby" by (simp add: example_defs)
  have h2: "distinct (map book_id (books lent_store))" by (simp add: example_defs)
  have h3: "quantity gatsby = 10 \<and> availableQuantity gatsby = 8" by (simp add: example_defs)
  from update_quantity_reconciles [OF h1 h2, of 12] h3
  show ?thesis by (simp add: example_defs)
qed

text \<open>
  C7. The claim has a \<open>return\<close> after a committed \<open>borrow\<close> commit and restore the count; on
  the code it throws. On the same store \<open>borrow\<close> commits, and the \<open>return\<close> of the same book
  by the same user finds no open loan, throws \<open>NotFoundException\<close> and leaves the store as
  the borrow left it: nine copies available, not ten.
\<close>

theorem return_after_borrow_not_found:
  "borrow shelf_store 1 3 500
     = (shelf_store\<lparr>books := [gatsby\<lparr>availableQuantity := 9\<rparr>],
          borrowRecords :=
            [\<lparr>record_id = 1, borrowedAt = 500, returnedAt = Some 500, user = 3, book = 1\<rparr>],
          record_seq := 2\<rparr>,
        Inr \<lparr>record_id = 1, borrowedAt = 500, returnedAt = Some 500, user = 3, book = 1\<rparr>)
   \<and> return (shelf_store\<lparr>books := [gatsby\<lparr>availableQuantity := 9\<rparr>],
          borrowRecords :=
            [\<lparr>record_id = 1, borrowedAt = 500, returnedAt = Some 500, user = 3, book = 1\<rparr>],
          record_seq := 2\<rparr>) 1 3 900
     = (shelf_store\<lparr>books := [gatsby\<lparr>availableQuantity := 9\<rparr>],
          borrowRecords :=
            [\<lparr>record_id = 1, borrowedAt = 500, returnedAt = Some 500, user = 3, book = 1\<rparr>],
          record_seq := 2\<rparr>,
        Inl NotFoundException)"
  by (simp add: borrow_unfold return_unfold example_defs)

text \<open>
  C8. When the book exists but the user has no open loan of it, whatever the counts of the
  book, \<open>return\<close> throws \<open>NotFoundException\<close> and the store is unchanged; so it does when the
  book does not exist.
\<close>

theorem return_without_loan:
  "(findOne_Book s bookId \<noteq> None \<and> findOne_open s bookId userId = None \<longrightarrow>
      return s bookId userId now = (s, Inl NotFoundException))
   \<and> (findOne_Book s bookId = None \<longrightarrow>
      return s bookId userId now = (s, Inl NotFoundException))"
  by (auto simp: return_unfold)

theorem return_without_loan_witness:
  "return lent_store 1 3 500 = (lent_store, Inl NotFoundException)
   \<and> return lent_store 9 1 500 = (lent_store, Inl NotFoundException)"
proof -
  have "findOne_Book lent_store 1 \<noteq> None \<and> findOne_open lent_store 1 3 = None"
    by (simp add: example_defs)
  then have a: "return lent_store 1 3 500 = (lent_store, Inl NotFoundException)"
    using return_without_loan [of lent_store 1 3 500] by blast
  have "findOne_Book lent_store 9 = None"
    by (simp add: example_defs)
  then have b: "return lent_store 9 1 500 = (lent_store, Inl NotFoundException)"
    using return_without_loan [of lent_store 9 1 500] by blast
  from a b show ?thesis ..
qed

text \<open>
  C10. When the book exists, no copy is available and the user already has an open loan of
  it, \<open>borrow\<close> throws \<open>BadRequestException\<close> (no copies available), not
  \<open>ConflictException\<close>: availability is checked before the loans are searched.
\<close>

theorem borrow_unavailable_precedes_conflict:
  assumes "findOne_Book s bookId = Some b"
    and "availableQuantity b \<le> 0"
    and "findOne_open s bookId userId = Some r"
  shows "borrow s bookId userId now = (s, Inl BadRequestException)
     \<and> snd (borrow s bookId userId now) \<noteq> Inl ConflictException"
  using assms by (simp add: borrow_unfold)

theorem borrow_unavailable_precedes_conflict_witness:
  "borrow sold_out_store 1 7 500 = (sold_out_store, Inl BadRequestException)
   \<and> snd (borrow sold_out_store 1 7 500) \<noteq> Inl ConflictException"
proof -
  have h1: "findOne_Book sold_out_store 1 = Some (gatsby\<lparr>quantity := 1, availableQuantity := 0\<rparr>)"
    by (simp add: example_defs)
  have h2: "availableQuantity (gatsby\<lparr>quantity := 1, availableQuantity := 0\<rparr>) \<le> 0"
    by simp
  have h3: "findOne_open sold_out_store 1 7
      = Some \<lparr>record_id = 1, borrowedAt = 100, returnedAt = None, user = 7, book = 1\<rparr>"
    by (simp add: example_defs)
  show ?thesis
    using borrow_unavailable_precedes_conflict [OF h1 h2 h3, of 500] .
qed

end
